theory Spec2Isabelle
  imports Complex_Main
begin

section \<open>Embedding engine over a vector store: the model\<close>

text \<open>
  The program is \<^verbatim>\<open>backend/utils/embeddings.py\<close>: the class \<^verbatim>\<open>EmbeddingEngine\<close>,
  which embeds texts with a sentence-transformer model and keeps the vectors in one
  Milvus collection. Every method is a short sequence of calls to external collaborators
  (the model, the store client, \<^verbatim>\<open>uuid\<close>, the logger) inside \<^verbatim>\<open>try/except\<close>.

  The model makes those effects explicit. A \<open>world\<close> holds the trace of the external calls
  issued so far, the log, and the store's own state; an \<open>env\<close> fixes how the collaborators
  answer in one run (which calls raise, what the model and the search return, what
  \<^verbatim>\<open>uuid4\<close> draws). A method is a function from the world to a result (\<open>Inl\<close> the
  exception raised, \<open>Inr\<close> the value returned) and the world after it.
\<close>

subsection \<open>Values\<close>

text \<open>Values of Python's \<^verbatim>\<open>Any\<close> that the metadata and the entity fields can hold.\<close>

datatype pyval = PyNone | PyStr string | PyInt int

text \<open>
  Exceptions: \<^verbatim>\<open>IndexError\<close> is raised by the engine's own code
  (\<^verbatim>\<open>query_embeddings[0]\<close>); every other exception comes from a collaborator and is
  opaque to the engine. \<open>ClientRejected\<close> stands for those that a collaborator raises
  from the check of its arguments, before it does or sends anything; \<open>External\<close> for
  the others.
\<close>

datatype exn = IndexError | External string | ClientRejected string

datatype level = INFO | ERROR

datatype log_arg = NoArg | StrArg string | NatArg nat | ExnArg exn

type_synonym log_entry = "level \<times> string \<times> log_arg"

subsection \<open>What is passed to the store client\<close>

datatype data_type = VARCHAR | FLOAT_VECTOR

record field_schema =
  fs_name :: string
  fs_dtype :: data_type
  fs_is_primary :: bool
  fs_max_length :: "int option"
  fs_dim :: "int option"

record collection_schema =
  cs_fields :: "field_schema list"
  cs_description :: string

record index_params =
  ip_metric_type :: string
  ip_index_type :: string
  ip_nlist :: int

record search_params =
  sp_metric_type :: string
  sp_nprobe :: int

record search_request =
  sq_data :: "real list list"
  sq_anns_field :: string
  sq_param :: search_params
  sq_limit :: int
  sq_output_fields :: "string list"

text \<open>
  The column batch of \<^verbatim>\<open>store_embeddings\<close>: the Python list
  \<^verbatim>\<open>[vector_ids, [document_id] * len(texts), texts, embeddings]\<close>. The columns are
  independent lists: nothing in the type makes them equally long.
\<close>

record entities =
  id_col :: "string list"
  document_id_col :: "pyval list"
  text_col :: "string list"
  vector_col :: "real list list"

record hit =
  hit_id :: string
  hit_score :: real
  hit_entity :: "string \<rightharpoonup> pyval"

text \<open>One element of the list \<^verbatim>\<open>search\<close> returns.\<close>

record search_result =
  sr_id :: string
  sr_text :: pyval
  sr_score :: real
  sr_metadata_document_id :: pyval

subsection \<open>External calls, the world and the environment\<close>

datatype call =
    SentenceTransformer string
  | Encode "string list"
  | Connect string string string
  | Disconnect string
  | HasCollection string
  | NewCollection string "collection_schema option"
  | CreateIndex string string index_params
  | Load string
  | Insert string entities
  | Flush string
  | Search string search_request

record world =
  calls :: "call list"
  logs :: "log_entry list"
  uuid_drawn :: nat
  aliases :: "string list"
  collections :: "string \<rightharpoonup> collection_schema"
  indexes :: "(string \<times> string \<times> index_params) list"
  loaded :: "string list"
  pending :: "string \<Rightarrow> entities list"
  committed :: "string \<Rightarrow> entities list"

text \<open>
  The environment of one run. \<open>fails tr c\<close> is the exception with which call \<open>c\<close>,
  issued after the calls \<open>tr\<close>, is answered, if any; \<open>encode_out\<close> is what the model's
  \<^verbatim>\<open>encode(...).tolist()\<close> yields; \<open>search_out\<close> is the store's answer to a search;
  \<open>uuid4_src k\<close> is the string of the \<open>k\<close>-th \<^verbatim>\<open>uuid.uuid4()\<close> of the run.
\<close>

record env =
  fails :: "call list \<Rightarrow> call \<Rightarrow> exn option"
  encode_out :: "string list \<Rightarrow> real list list"
  search_out :: "call list \<Rightarrow> search_request \<Rightarrow> hit list list"
  uuid4_src :: "nat \<Rightarrow> string"

text \<open>The part of \<^verbatim>\<open>backend.config.settings\<close> that the engine reads.\<close>

record settings =
  milvus_uri :: string
  milvus_token :: string
  milvus_collection :: string
  vector_dimension :: int

text \<open>
  Modelled from the spec: the store's side of the capabilities of section 6 (the store
  client is an external library). \<open>createCollection\<close> adds the named collection,
  \<open>createIndex\<close> records an index, \<open>load\<close> marks the collection loaded, \<open>insert\<close> appends the
  batch to the write buffer, and \<open>flush\<close> "makes prior inserts visible to search": it moves
  the buffer to the committed batches. Attaching (\<^verbatim>\<open>Collection(name)\<close>), the
  existence check, encoding and searching change nothing.
\<close>

fun effect :: "call \<Rightarrow> world \<Rightarrow> world" where
  "effect (Connect a uri tok) w = w\<lparr>aliases := a # aliases w\<rparr>"
| "effect (Disconnect a) w = w\<lparr>aliases := removeAll a (aliases w)\<rparr>"
| "effect (NewCollection n (Some sch)) w =
     (if collections w n = None then w\<lparr>collections := (collections w)(n \<mapsto> sch)\<rparr> else w)"
| "effect (CreateIndex n f p) w = w\<lparr>indexes := indexes w @ [(n, f, p)]\<rparr>"
| "effect (Load n) w = w\<lparr>loaded := n # loaded w\<rparr>"
| "effect (Insert n ents) w = w\<lparr>pending := (pending w)(n := pending w n @ [ents])\<rparr>"
| "effect (Flush n) w =
     w\<lparr>committed := (committed w)(n := committed w n @ pending w n),
       pending := (pending w)(n := [])\<rparr>"
| "effect c w = w"

subsection \<open>Sequencing, raising and catching\<close>

type_synonym 'a io = "world \<Rightarrow> (exn + 'a) \<times> world"

definition io_return :: "'a \<Rightarrow> 'a io" where
  "io_return x w = (Inr x, w)"

definition io_raise :: "exn \<Rightarrow> 'a io" where
  "io_raise e w = (Inl e, w)"

definition io_bind :: "'a io \<Rightarrow> ('a \<Rightarrow> 'b io) \<Rightarrow> 'b io" where
  "io_bind m f w = (case m w of (Inl e, w1) \<Rightarrow> (Inl e, w1) | (Inr x, w1) \<Rightarrow> f x w1)"

text \<open>\<^verbatim>\<open>try: m  except Exception as e: h(e)\<close>\<close>

definition try_except :: "'a io \<Rightarrow> (exn \<Rightarrow> 'a io) \<Rightarrow> 'a io" where
  "try_except m h w = (case m w of (Inl e, w1) \<Rightarrow> h e w1 | (Inr x, w1) \<Rightarrow> (Inr x, w1))"

text \<open>
  Issuing an external call: it is recorded in the trace whether or not it succeeds; it
  raises when the environment says so, and otherwise has its effect on the store.
\<close>

definition perform :: "env \<Rightarrow> call \<Rightarrow> unit io" where
  "perform env c w =
     (case fails env (calls w) c of
        Some e \<Rightarrow> (Inl e, w\<lparr>calls := calls w @ [c]\<rparr>)
      | None \<Rightarrow> (Inr (), effect c (w\<lparr>calls := calls w @ [c]\<rparr>)))"

definition logger_info :: "string \<Rightarrow> log_arg \<Rightarrow> unit io" where
  "logger_info msg a w = (Inr (), w\<lparr>logs := logs w @ [(INFO, msg, a)]\<rparr>)"

definition logger_error :: "string \<Rightarrow> log_arg \<Rightarrow> unit io" where
  "logger_error msg a w = (Inr (), w\<lparr>logs := logs w @ [(ERROR, msg, a)]\<rparr>)"

subsection \<open>The collaborators' operations as the engine calls them\<close>

definition sentence_transformer :: "env \<Rightarrow> string \<Rightarrow> string io" where
  "sentence_transformer env name = io_bind (perform env (SentenceTransformer name)) (\<lambda>_. io_return name)"

definition model_encode :: "env \<Rightarrow> string list \<Rightarrow> real list list io" where
  "model_encode env texts = io_bind (perform env (Encode texts)) (\<lambda>_. io_return (encode_out env texts))"

definition connections_connect :: "env \<Rightarrow> string \<Rightarrow> string \<Rightarrow> string \<Rightarrow> unit io" where
  "connections_connect env alias uri token = perform env (Connect alias uri token)"

definition connections_disconnect :: "env \<Rightarrow> string \<Rightarrow> unit io" where
  "connections_disconnect env alias = perform env (Disconnect alias)"

definition utility_has_collection :: "env \<Rightarrow> string \<Rightarrow> bool io" where
  "utility_has_collection env name =
     io_bind (perform env (HasCollection name)) (\<lambda>_ w. (Inr (collections w name \<noteq> None), w))"

text \<open>The constructor \<^verbatim>\<open>Collection(name[, schema])\<close>; the handle is the name.\<close>

definition Collection :: "env \<Rightarrow> string \<Rightarrow> collection_schema option \<Rightarrow> string io" where
  "Collection env name schema = io_bind (perform env (NewCollection name schema)) (\<lambda>_. io_return name)"

definition collection_create_index :: "env \<Rightarrow> string \<Rightarrow> string \<Rightarrow> index_params \<Rightarrow> unit io" where
  "collection_create_index env h field_name ps = perform env (CreateIndex h field_name ps)"

definition collection_load :: "env \<Rightarrow> string \<Rightarrow> unit io" where
  "collection_load env h = perform env (Load h)"

definition collection_insert :: "env \<Rightarrow> string \<Rightarrow> entities \<Rightarrow> unit io" where
  "collection_insert env h ents = perform env (Insert h ents)"

definition collection_flush :: "env \<Rightarrow> string \<Rightarrow> unit io" where
  "collection_flush env h = perform env (Flush h)"

definition collection_search :: "env \<Rightarrow> string \<Rightarrow> search_request \<Rightarrow> hit list list io" where
  "collection_search env h req w =
     io_bind (perform env (Search h req)) (\<lambda>_. io_return (search_out env (calls w) req)) w"

text \<open>\<^verbatim>\<open>str(uuid.uuid4())\<close>: the next draw of the run.\<close>

definition uuid4 :: "env \<Rightarrow> world \<Rightarrow> string \<times> world" where
  "uuid4 env w = (uuid4_src env (uuid_drawn w), w\<lparr>uuid_drawn := Suc (uuid_drawn w)\<rparr>)"

text \<open>\<^verbatim>\<open>[str(uuid.uuid4()) for _ in range(n)]\<close>\<close>

fun uuid4_times :: "env \<Rightarrow> nat \<Rightarrow> world \<Rightarrow> string list \<times> world" where
  "uuid4_times env 0 w = ([], w)"
| "uuid4_times env (Suc n) w =
     (case uuid4 env w of (u, w1) \<Rightarrow>
        (case uuid4_times env n w1 of (us, w2) \<Rightarrow> (u # us, w2)))"

text \<open>\<^verbatim>\<open>d.get(k, default)\<close>\<close>

definition dict_get :: "(string \<rightharpoonup> pyval) \<Rightarrow> string \<Rightarrow> pyval \<Rightarrow> pyval" where
  "dict_get d k dflt = (case d k of None \<Rightarrow> dflt | Some v \<Rightarrow> v)"

subsection \<open>The engine\<close>

record engine =
  model :: string
  dimension :: int
  collection :: string

definition connect_milvus :: "env \<Rightarrow> settings \<Rightarrow> unit io" where
  "connect_milvus env st =
     try_except
       (io_bind (connections_connect env ''default'' (milvus_uri st) (milvus_token st)) (\<lambda>_.
        logger_info ''Connected to Milvus successfully'' NoArg))
       (\<lambda>e. io_bind (logger_error ''Failed to connect to Milvus: {}'' (ExnArg e)) (\<lambda>_.
             io_raise e))"

definition schema_fields :: "int \<Rightarrow> field_schema list" where
  "schema_fields vdim =
     [\<lparr>fs_name = ''id'', fs_dtype = VARCHAR, fs_is_primary = True,
       fs_max_length = Some 100, fs_dim = None\<rparr>,
      \<lparr>fs_name = ''document_id'', fs_dtype = VARCHAR, fs_is_primary = False,
       fs_max_length = Some 100, fs_dim = None\<rparr>,
      \<lparr>fs_name = ''text'', fs_dtype = VARCHAR, fs_is_primary = False,
       fs_max_length = Some 65535, fs_dim = None\<rparr>,
      \<lparr>fs_name = ''vector'', fs_dtype = FLOAT_VECTOR, fs_is_primary = False,
       fs_max_length = None, fs_dim = Some vdim\<rparr>]"

text \<open>The local \<^verbatim>\<open>schema\<close> and \<^verbatim>\<open>index_params\<close> of \<^verbatim>\<open>_init_collection\<close>.\<close>

definition document_schema :: "int \<Rightarrow> collection_schema" where
  "document_schema vdim =
     \<lparr>cs_fields = schema_fields vdim, cs_description = ''Document embeddings''\<rparr>"

definition ivf_flat_index :: index_params where
  "ivf_flat_index =
     \<lparr>ip_metric_type = ''COSINE'', ip_index_type = ''IVF_FLAT'', ip_nlist = 128\<rparr>"

definition init_collection :: "env \<Rightarrow> settings \<Rightarrow> int \<Rightarrow> string io" where
  "init_collection env st vdim =
     try_except
       (io_bind (utility_has_collection env (milvus_collection st)) (\<lambda>exists.
        io_bind
          (if exists then
             io_bind (Collection env (milvus_collection st) None) (\<lambda>h.
             io_bind (logger_info ''Using existing collection: {}'' (StrArg (milvus_collection st))) (\<lambda>_.
             io_return h))
           else
             io_bind (Collection env (milvus_collection st) (Some (document_schema vdim))) (\<lambda>h.
             io_bind (collection_create_index env h ''vector'' ivf_flat_index) (\<lambda>_.
             io_bind (logger_info ''Created new collection: {}'' (StrArg (milvus_collection st))) (\<lambda>_.
             io_return h)))) (\<lambda>h.
        io_bind (collection_load env h) (\<lambda>_.
        io_bind (logger_info ''Collection loaded into memory'' NoArg) (\<lambda>_.
        io_return h)))))
       (\<lambda>e. io_bind (logger_error ''Failed to initialize collection: {}'' (ExnArg e)) (\<lambda>_.
             io_raise e))"

text \<open>
  \<^verbatim>\<open>__init__\<close>: load the model, read the dimension, connect, initialise the collection.
  There is no \<^verbatim>\<open>try\<close> here: an exception of any step leaves the constructor.
\<close>

definition engine_init :: "env \<Rightarrow> settings \<Rightarrow> engine io" where
  "engine_init env st =
     io_bind (sentence_transformer env ''all-MiniLM-L6-v2'') (\<lambda>m.
     io_bind (connect_milvus env st) (\<lambda>_.
     io_bind (init_collection env st (vector_dimension st)) (\<lambda>h.
     io_return \<lparr>model = m, dimension = vector_dimension st, collection = h\<rparr>)))"

definition embed_texts :: "env \<Rightarrow> engine \<Rightarrow> string list \<Rightarrow> real list list io" where
  "embed_texts env self texts =
     try_except
       (io_bind (model_encode env texts) (\<lambda>embeddings_list.
        io_bind (logger_info ''Generated {} embeddings'' (NatArg (length embeddings_list))) (\<lambda>_.
        io_return embeddings_list)))
       (\<lambda>e. io_bind (logger_error ''Error generating embeddings: {}'' (ExnArg e)) (\<lambda>_.
             io_raise e))"

definition store_embeddings ::
  "env \<Rightarrow> engine \<Rightarrow> real list list \<Rightarrow> string list \<Rightarrow> (string \<rightharpoonup> pyval) \<Rightarrow> string list io" where
  "store_embeddings env self embeddings texts metadata =
     try_except
       (\<lambda>w. case uuid4_times env (length texts) w of (vector_ids, w1) \<Rightarrow>
          io_bind (collection_insert env (collection self)
                     \<lparr>id_col = vector_ids,
                      document_id_col =
                        replicate (length texts) (dict_get metadata ''document_id'' (PyStr ''unknown'')),
                      text_col = texts,
                      vector_col = embeddings\<rparr>) (\<lambda>_.
          io_bind (collection_flush env (collection self)) (\<lambda>_.
          io_bind (logger_info ''Stored {} vectors in Milvus'' (NatArg (length vector_ids))) (\<lambda>_.
          io_return vector_ids))) w1)
       (\<lambda>e. io_bind (logger_error ''Error storing embeddings in Milvus: {}'' (ExnArg e)) (\<lambda>_.
             io_raise e))"

text \<open>
  One hit as \<^verbatim>\<open>search\<close> formats it; \<^verbatim>\<open>hit.entity.get(k)\<close> is \<^verbatim>\<open>None\<close> for a
  field the hit does not carry.
\<close>

definition format_hit :: "hit \<Rightarrow> search_result" where
  "format_hit h =
     \<lparr>sr_id = hit_id h,
      sr_text = dict_get (hit_entity h) ''text'' PyNone,
      sr_score = hit_score h,
      sr_metadata_document_id = dict_get (hit_entity h) ''document_id'' PyNone\<rparr>"

text \<open>
  \<^verbatim>\<open>for hits in search_results: for hit in hits: results.append(...)\<close>:
  the groups are flattened in the order the store returned them.
\<close>

fun format_results :: "hit list list \<Rightarrow> search_result list" where
  "format_results [] = []"
| "format_results (hits # rest) = map format_hit hits @ format_results rest"

text \<open>
  The arguments of \<^verbatim>\<open>self.collection.search(...)\<close>: the one query vector, the field
  searched, \<^verbatim>\<open>search_params\<close>, the limit and the output fields.
\<close>

definition search_args :: "real list \<Rightarrow> int \<Rightarrow> search_request" where
  "search_args query_embedding top_k =
     \<lparr>sq_data = [query_embedding],
      sq_anns_field = ''vector'',
      sq_param = \<lparr>sp_metric_type = ''COSINE'', sp_nprobe = 10\<rparr>,
      sq_limit = top_k,
      sq_output_fields = [''text'', ''document_id'']\<rparr>"

definition search :: "env \<Rightarrow> engine \<Rightarrow> string \<Rightarrow> int \<Rightarrow> search_result list io" where
  "search env self query_text top_k =
     try_except
       (io_bind (embed_texts env self [query_text]) (\<lambda>query_embeddings.
        case query_embeddings of
          [] \<Rightarrow> io_raise IndexError
        | query_embedding # _ \<Rightarrow>
            io_bind (collection_search env (collection self)
                       (search_args query_embedding top_k)) (\<lambda>search_results.
            io_bind (logger_info ''Found {} results for query''
                       (NatArg (length (format_results search_results)))) (\<lambda>_.
            io_return (format_results search_results)))))
       (\<lambda>e. io_bind (logger_error ''Error searching in Milvus: {}'' (ExnArg e)) (\<lambda>_.
             io_raise e))"

text \<open>\<^verbatim>\<open>close\<close>: the handler logs the exception and does not raise again.\<close>

definition close :: "env \<Rightarrow> engine \<Rightarrow> unit io" where
  "close env self =
     try_except
       (io_bind (connections_disconnect env ''default'') (\<lambda>_.
        logger_info ''Disconnected from Milvus'' NoArg))
       (\<lambda>e. logger_error ''Error disconnecting from Milvus: {}'' (ExnArg e))"

subsection \<open>Notions used in the statements\<close>

text \<open>The ids that the next \<open>n\<close> draws of \<^verbatim>\<open>uuid4\<close> yield in world \<open>w\<close>.\<close>

definition drawn_ids :: "env \<Rightarrow> world \<Rightarrow> nat \<Rightarrow> string list" where
  "drawn_ids env w n = map (uuid4_src env) [uuid_drawn w ..< uuid_drawn w + n]"

text \<open>The column batch that \<^verbatim>\<open>store_embeddings\<close> builds when called in world \<open>w\<close>.\<close>

definition batch ::
  "env \<Rightarrow> world \<Rightarrow> real list list \<Rightarrow> string list \<Rightarrow> (string \<rightharpoonup> pyval) \<Rightarrow> entities" where
  "batch env w embeddings texts metadata =
     \<lparr>id_col = drawn_ids env w (length texts),
      document_id_col =
        replicate (length texts) (dict_get metadata ''document_id'' (PyStr ''unknown'')),
      text_col = texts,
      vector_col = embeddings\<rparr>"


text \<open>
  Modelled from the spec: the unit of storage of section 3 (EmbeddingRecord: id,
  document_id, text, vector) and its visibility ("a record is visible to search only
  after its write batch has been committed"). The records of a column batch are its rows;
  the records a search of a collection can match are the rows of its committed batches.
  \<open>record_field\<close> is the value a record has for a field name of the schema.
\<close>

record embedding_record =
  rec_id :: string
  rec_document_id :: pyval
  rec_text :: string
  rec_vector :: "real list"

definition batch_records :: "entities \<Rightarrow> embedding_record list" where
  "batch_records b =
     map (\<lambda>(i, d, t, v). \<lparr>rec_id = i, rec_document_id = d, rec_text = t, rec_vector = v\<rparr>)
       (zip (id_col b) (zip (document_id_col b) (zip (text_col b) (vector_col b))))"

definition visible_records :: "world \<Rightarrow> string \<Rightarrow> embedding_record list" where
  "visible_records w name = concat (map batch_records (committed w name))"

definition record_field :: "embedding_record \<Rightarrow> string \<Rightarrow> pyval option" where
  "record_field r f =
     (if f = ''id'' then Some (PyStr (rec_id r))
      else if f = ''document_id'' then Some (rec_document_id r)
      else if f = ''text'' then Some (PyStr (rec_text r))
      else None)"

text \<open>
  Modelled from the spec: a hit of the store's search capability (section 6, "each hit =
  {id, score, fields}") for a matched record: the hit has the record's id and, for every
  output field the request names, the record's value.
\<close>

definition hit_of_record :: "string list \<Rightarrow> hit \<Rightarrow> embedding_record \<Rightarrow> bool" where
  "hit_of_record output_fields h r \<longleftrightarrow>
     hit_id h = rec_id r \<and> (\<forall>f \<in> set output_fields. hit_entity h f = record_field r f)"

text \<open>
  Modelled from the spec: the store's search capability (section 6,
  "search(collection, queryVectors, field, metric, params, limit, outputFields) -> groups
  of ranked hits"; section 3, the score is a similarity, "higher = more similar under the
  cosine metric"; section 4.5). The store is an external service. Asked, after the calls
  \<open>tr\<close>, to search the vector field with the cosine metric, a positive probe count and a
  positive limit, over the visible records \<open>recs\<close>, it answers one group per query
  vector; each group has at most \<open>limit\<close> hits, in the order of non-increasing score,
  and each hit is the hit of a visible record for the requested output fields. Nothing is
  promised for another field or metric.
\<close>

definition search_contract :: "env \<Rightarrow> call list \<Rightarrow> embedding_record list \<Rightarrow> bool" where
  "search_contract env tr recs \<longleftrightarrow>
     (\<forall>req. sq_anns_field req = ''vector'' \<and> sp_metric_type (sq_param req) = ''COSINE''
            \<and> 0 < sp_nprobe (sq_param req) \<and> 0 < sq_limit req \<longrightarrow>
        length (search_out env tr req) = length (sq_data req)
        \<and> (\<forall>hits \<in> set (search_out env tr req).
              length hits \<le> nat (sq_limit req)
              \<and> sorted_wrt (\<lambda>a b. hit_score a \<ge> hit_score b) hits
              \<and> (\<forall>h \<in> set hits. \<exists>r \<in> set recs. hit_of_record (sq_output_fields req) h r)))"




text \<open>A call that creates a collection: \<^verbatim>\<open>Collection(name, schema)\<close>.\<close>

fun is_creation :: "call \<Rightarrow> bool" where
  "is_creation (NewCollection n (Some sch)) = True"
| "is_creation c = False"

text \<open>
  The exception of the first call among \<open>cs\<close>, issued after \<open>tr\<close>, that the environment
  answers with one; \<open>raised_during env w w'\<close> is that exception for the calls issued
  between the worlds \<open>w\<close> and \<open>w'\<close>.
\<close>

fun first_raised :: "env \<Rightarrow> call list \<Rightarrow> call list \<Rightarrow> exn option" where
  "first_raised env tr [] = None"
| "first_raised env tr (c # cs) =
     (case fails env tr c of Some e \<Rightarrow> Some e | None \<Rightarrow> first_raised env (tr @ [c]) cs)"

definition raised_during :: "env \<Rightarrow> world \<Rightarrow> world \<Rightarrow> exn option" where
  "raised_during env w w' = first_raised env (calls w) (drop (length (calls w)) (calls w'))"

text \<open>
  A client of the engine calls its methods in any order; \<open>run_ops\<close> is the world after a
  sequence of such calls, whatever each of them returned or raised.
\<close>

datatype op =
    EmbedTexts "string list"
  | StoreEmbeddings "real list list" "string list" "string \<rightharpoonup> pyval"
  | SearchFor string int
  | Close

fun step :: "env \<Rightarrow> engine \<Rightarrow> op \<Rightarrow> world \<Rightarrow> world" where
  "step env self (EmbedTexts texts) w = snd (embed_texts env self texts w)"
| "step env self (StoreEmbeddings embeddings texts metadata) w =
     snd (store_embeddings env self embeddings texts metadata w)"
| "step env self (SearchFor query_text top_k) w = snd (search env self query_text top_k w)"
| "step env self Close w = snd (close env self w)"

fun run_ops :: "env \<Rightarrow> engine \<Rightarrow> op list \<Rightarrow> world \<Rightarrow> world" where
  "run_ops env self [] w = w"
| "run_ops env self (x # xs) w = run_ops env self xs (step env self x w)"

subsection \<open>Concrete runs\<close>

text \<open>
  A store that answers every call, a model with two-dimensional vectors, a search that
  ranks two records, and a \<^verbatim>\<open>uuid4\<close> whose \<open>k\<close>-th draw is \<open>k + 1\<close> letters long.
\<close>

definition env_ok :: env where
  "env_ok =
     \<lparr>fails = (\<lambda>tr c. None),
      encode_out = map (\<lambda>t. [1, 0]),
      search_out = (\<lambda>tr req. map (\<lambda>q. take (nat (sq_limit req))
                      [\<lparr>hit_id = ''u'', hit_score = 0.9,
                        hit_entity = [''text'' \<mapsto> PyStr ''The cat sat.'',
                                      ''document_id'' \<mapsto> PyStr ''doc-1'']\<rparr>,
                       \<lparr>hit_id = ''uu'', hit_score = 0.2,
                        hit_entity = [''text'' \<mapsto> PyStr ''Dogs bark loudly.'',
                                      ''document_id'' \<mapsto> PyStr ''doc-1'']\<rparr>])
                    (sq_data req)),
      uuid4_src = (\<lambda>k. replicate (Suc k) CHR ''u'')\<rparr>"

definition world0 :: world where
  "world0 = \<lparr>calls = [], logs = [], uuid_drawn = 0, aliases = [], collections = Map.empty,
             indexes = [], loaded = [], pending = (\<lambda>n. []), committed = (\<lambda>n. [])\<rparr>"

definition engine0 :: engine where
  "engine0 = \<lparr>model = ''all-MiniLM-L6-v2'', dimension = 2, collection = ''documents''\<rparr>"

text \<open>The same, with a store that rejects every insert.\<close>

definition env_rejecting :: env where
  "env_rejecting =
     env_ok\<lparr>fails := (\<lambda>tr c. case c of Insert h b \<Rightarrow> Some (External ''insert rejected'')
                                  | _ \<Rightarrow> None)\<rparr>"

text \<open>The world after one text has been stored in the empty world.\<close>

definition world1 :: world where
  "world1 = snd (store_embeddings env_ok engine0 [[1, 0]] [''a''] Map.empty world0)"

text \<open>Settings for the concrete runs, and a store that cannot be reached.\<close>

definition settings0 :: settings where
  "settings0 = \<lparr>milvus_uri = ''https://example.zillizcloud.com'', milvus_token = ''token'',
                milvus_collection = ''documents'', vector_dimension = 2\<rparr>"

definition env_unreachable :: env where
  "env_unreachable =
     env_ok\<lparr>fails := (\<lambda>tr c. case c of Connect a u t \<Rightarrow> Some (External ''unreachable'')
                                  | Disconnect a \<Rightarrow> Some (External ''unreachable'')
                                  | _ \<Rightarrow> None)\<rparr>"

text \<open>The world after the collection has been initialised in the empty world.\<close>

definition world_initialised :: world where
  "world_initialised = snd (init_collection env_ok settings0 2 world0)"


text \<open>
  Two records of one document, a store whose search ranks them and returns the output
  fields asked for, and the world after both have been stored in the empty world.
\<close>

definition cat_record :: embedding_record where
  "cat_record = \<lparr>rec_id = ''u'', rec_document_id = PyStr ''doc-1'',
                 rec_text = ''The cat sat.'', rec_vector = [1, 0]\<rparr>"

definition dog_record :: embedding_record where
  "dog_record = \<lparr>rec_id = ''uu'', rec_document_id = PyStr ''doc-1'',
                 rec_text = ''Dogs bark loudly.'', rec_vector = [1, 0]\<rparr>"

definition hit_for :: "string list \<Rightarrow> embedding_record \<Rightarrow> real \<Rightarrow> hit" where
  "hit_for output_fields r s =
     \<lparr>hit_id = rec_id r, hit_score = s,
      hit_entity = (\<lambda>f. if f \<in> set output_fields then record_field r f else None)\<rparr>"

definition env_ranking :: env where
  "env_ranking =
     env_ok\<lparr>search_out := (\<lambda>tr req. map (\<lambda>q. take (nat (sq_limit req))
                               [hit_for (sq_output_fields req) cat_record 0.9,
                                hit_for (sq_output_fields req) dog_record 0.2])
                             (sq_data req))\<rparr>"

definition world2 :: world where
  "world2 = snd (store_embeddings env_ranking engine0 [[1, 0], [1, 0]]
                   [''The cat sat.'', ''Dogs bark loudly.'']
                   [''document_id'' \<mapsto> PyStr ''doc-1''] world0)"

section \<open>Properties\<close>

subsection \<open>Auxiliary facts\<close>

lemmas io_defs = io_bind_def io_return_def io_raise_def try_except_def perform_def
  logger_info_def logger_error_def

lemma uuid4_times_eq:
  "uuid4_times env n w = (drawn_ids env w n, w\<lparr>uuid_drawn := uuid_drawn w + n\<rparr>)"
proof (induction n arbitrary: w)
  case 0
  show ?case by (simp add: drawn_ids_def)
next
  case (Suc n)
  have "[uuid_drawn w ..< uuid_drawn w + Suc n] =
          uuid_drawn w # [Suc (uuid_drawn w) ..< Suc (uuid_drawn w) + n]"
    by (simp add: upt_rec)
  then show ?case
    by (simp add: uuid4_def Suc.IH drawn_ids_def del: upt_Suc)
qed

lemma store_result:
  "fst (store_embeddings env self embeddings texts metadata w) =
     (case fails env (calls w) (Insert (collection self) (batch env w embeddings texts metadata)) of
        Some e \<Rightarrow> Inl e
      | None \<Rightarrow>
         (case fails env (calls w @ [Insert (collection self) (batch env w embeddings texts metadata)])
                 (Flush (collection self)) of
            Some e \<Rightarrow> Inl e
          | None \<Rightarrow> Inr (drawn_ids env w (length texts))))"
  by (simp add: store_embeddings_def uuid4_times_eq io_defs collection_insert_def
      collection_flush_def batch_def split: option.splits)

lemma store_calls:
  "calls (snd (store_embeddings env self embeddings texts metadata w)) =
     calls w @ Insert (collection self) (batch env w embeddings texts metadata) #
       (if fails env (calls w) (Insert (collection self) (batch env w embeddings texts metadata)) = None
        then [Flush (collection self)] else [])"
  by (simp add: store_embeddings_def uuid4_times_eq io_defs collection_insert_def
      collection_flush_def batch_def split: option.splits)

lemma store_uuid_drawn:
  "uuid_drawn (snd (store_embeddings env self embeddings texts metadata w)) =
     uuid_drawn w + length texts"
  by (simp add: store_embeddings_def uuid4_times_eq io_defs collection_insert_def
      collection_flush_def split: option.splits)

lemma store_committed:
  "fst (store_embeddings env self embeddings texts metadata w) = Inr ids \<Longrightarrow>
   pending (snd (store_embeddings env self embeddings texts metadata w)) (collection self) = [] \<and>
   committed (snd (store_embeddings env self embeddings texts metadata w)) (collection self) =
     committed w (collection self) @ pending w (collection self) @
       [batch env w embeddings texts metadata]"
  by (simp add: store_embeddings_def uuid4_times_eq io_defs collection_insert_def
      collection_flush_def batch_def split: option.splits)

lemma embed_result:
  "fst (embed_texts env self texts w) =
     (case fails env (calls w) (Encode texts) of Some e \<Rightarrow> Inl e
      | None \<Rightarrow> Inr (encode_out env texts))"
  by (simp add: embed_texts_def model_encode_def io_defs split: option.splits)

lemma embed_calls:
  "calls (snd (embed_texts env self texts w)) = calls w @ [Encode texts]"
  by (simp add: embed_texts_def model_encode_def io_defs split: option.splits)

lemma embed_uuid_drawn: "uuid_drawn (snd (embed_texts env self texts w)) = uuid_drawn w"
  by (simp add: embed_texts_def model_encode_def io_defs split: option.splits)

lemma search_uuid_drawn: "uuid_drawn (snd (search env self q k w)) = uuid_drawn w"
  by (simp add: search_def embed_texts_def model_encode_def collection_search_def io_defs
      split: option.splits list.splits)

lemma close_uuid_drawn: "uuid_drawn (snd (close env self w)) = uuid_drawn w"
  by (simp add: close_def connections_disconnect_def io_defs split: option.splits)

lemma step_uuid_drawn: "uuid_drawn w \<le> uuid_drawn (step env self x w)"
  by (cases x) (simp_all add: embed_uuid_drawn search_uuid_drawn close_uuid_drawn store_uuid_drawn)

lemma run_ops_uuid_drawn: "uuid_drawn w \<le> uuid_drawn (run_ops env self xs w)"
proof (induction xs arbitrary: w)
  case Nil
  show ?case by simp
next
  case (Cons x xs)
  have "uuid_drawn w \<le> uuid_drawn (step env self x w)" by (rule step_uuid_drawn)
  also have "\<dots> \<le> uuid_drawn (run_ops env self xs (step env self x w))" by (rule Cons.IH)
  finally show ?case by simp
qed

lemma drawn_ids_distinct:
  assumes "inj (uuid4_src env)" and "uuid_drawn w + n \<le> uuid_drawn w'"
  shows "distinct (drawn_ids env w n @ drawn_ids env w' m)"
proof -
  have "drawn_ids env w n @ drawn_ids env w' m =
          map (uuid4_src env) ([uuid_drawn w ..< uuid_drawn w + n] @ [uuid_drawn w' ..< uuid_drawn w' + m])"
    by (simp add: drawn_ids_def)
  moreover have "distinct ([uuid_drawn w ..< uuid_drawn w + n] @ [uuid_drawn w' ..< uuid_drawn w' + m])"
    using assms(2) by auto
  ultimately show ?thesis
    using assms(1) by (simp only: distinct_map) (meson inj_on_subset subset_UNIV)
qed

lemmas run_defs = store_embeddings_def embed_texts_def search_def search_args_def close_def
  model_encode_def collection_insert_def collection_flush_def collection_search_def
  connections_disconnect_def uuid4_def dict_get_def io_defs

lemma world1_eq:
  "world1 = \<lparr>calls = [Insert ''documents''
                \<lparr>id_col = [''u''], document_id_col = [PyStr ''unknown''],
                 text_col = [''a''], vector_col = [[1, 0]]\<rparr>, Flush ''documents''],
     logs = [(INFO, ''Stored {} vectors in Milvus'', NatArg 1)], uuid_drawn = 1, aliases = [], collections = Map.empty,
             indexes = [], loaded = [], pending = (\<lambda>n. []), committed = (\<lambda>n. [])(''documents'' := [\<lparr>id_col = [''u''], document_id_col = [PyStr ''unknown''],
                 text_col = [''a''], vector_col = [[1, 0]]\<rparr>])\<rparr>"
  by (simp add: world1_def run_defs env_ok_def world0_def engine0_def fun_eq_iff)

lemma search_result:
  "fst (search env self query_text top_k w) =
     (case fails env (calls w) (Encode [query_text]) of
        Some e \<Rightarrow> Inl e
      | None \<Rightarrow>
         (case encode_out env [query_text] of
            [] \<Rightarrow> Inl IndexError
          | query_embedding # rest \<Rightarrow>
             (case fails env (calls w @ [Encode [query_text]])
                     (Search (collection self) (search_args query_embedding top_k)) of
                Some e \<Rightarrow> Inl e
              | None \<Rightarrow>
                 Inr (format_results
                        (search_out env (calls w @ [Encode [query_text]])
                           (search_args query_embedding top_k))))))"
  by (simp add: search_def embed_texts_def model_encode_def collection_search_def io_defs
      split: option.splits list.splits)

lemma search_calls:
  "calls (snd (search env self query_text top_k w)) =
     calls w @ Encode [query_text] #
       (case fails env (calls w) (Encode [query_text]) of
          Some e \<Rightarrow> []
        | None \<Rightarrow>
           (case encode_out env [query_text] of
              [] \<Rightarrow> []
            | query_embedding # rest \<Rightarrow>
                [Search (collection self) (search_args query_embedding top_k)]))"
  by (simp add: search_def embed_texts_def model_encode_def collection_search_def io_defs
      split: option.splits list.splits)

lemmas init_defs = init_collection_def utility_has_collection_def Collection_def
  collection_create_index_def collection_load_def connect_milvus_def connections_connect_def
  engine_init_def sentence_transformer_def

lemma init_collection_reliable_result:
  assumes "\<forall>tr c. fails env tr c = None"
  shows "fst (init_collection env st d w) = Inr (milvus_collection st)"
  using assms by (simp add: init_defs io_defs)

lemma init_collection_reliable_calls:
  assumes "\<forall>tr c. fails env tr c = None"
  shows "calls (snd (init_collection env st d w)) =
     calls w @
       (if collections w (milvus_collection st) = None
        then [HasCollection (milvus_collection st),
              NewCollection (milvus_collection st) (Some (document_schema d)),
              CreateIndex (milvus_collection st) ''vector'' ivf_flat_index,
              Load (milvus_collection st)]
        else [HasCollection (milvus_collection st),
              NewCollection (milvus_collection st) None,
              Load (milvus_collection st)])"
  using assms by (simp add: init_defs io_defs)

lemma init_collection_reliable_collections:
  assumes "\<forall>tr c. fails env tr c = None"
  shows "collections (snd (init_collection env st d w)) =
     (if collections w (milvus_collection st) = None
      then (collections w)(milvus_collection st \<mapsto> document_schema d)
      else collections w)"
  using assms by (simp add: init_defs io_defs)

lemma init_collection_reliable_loaded:
  assumes "\<forall>tr c. fails env tr c = None"
  shows "loaded (snd (init_collection env st d w)) = milvus_collection st # loaded w"
  using assms by (simp add: init_defs io_defs)

lemma engine_init_connect_fails:
  assumes "fails env (calls w) (SentenceTransformer ''all-MiniLM-L6-v2'') = None"
    and "fails env (calls w @ [SentenceTransformer ''all-MiniLM-L6-v2''])
           (Connect ''default'' (milvus_uri st) (milvus_token st)) = Some e"
  shows "engine_init env st w =
     (Inl e, w\<lparr>calls := calls w @ [SentenceTransformer ''all-MiniLM-L6-v2'',
                                    Connect ''default'' (milvus_uri st) (milvus_token st)],
               logs := logs w @ [(ERROR, ''Failed to connect to Milvus: {}'', ExnArg e)]\<rparr>)"
  using assms by (simp add: init_defs io_defs)

lemma engine_init_success_calls:
  assumes "fst (engine_init env st w) = Inr eng"
  shows "\<exists>rest. calls (snd (engine_init env st w)) =
     calls w @ SentenceTransformer ''all-MiniLM-L6-v2'' #
       Connect ''default'' (milvus_uri st) (milvus_token st) #
       HasCollection (milvus_collection st) # rest"
  using assms
  by (simp add: init_defs io_defs split: option.splits if_splits)

lemma embed_reraises:
  "raised_during env w (snd (embed_texts env self texts w)) = Some e \<Longrightarrow>
   fst (embed_texts env self texts w) = Inl e"
  by (simp add: raised_during_def embed_calls embed_result split: option.splits)

lemma store_reraises:
  "raised_during env w (snd (store_embeddings env self embeddings texts metadata w)) = Some e \<Longrightarrow>
   fst (store_embeddings env self embeddings texts metadata w) = Inl e"
  by (simp add: raised_during_def store_calls store_result split: option.splits if_splits)

lemma search_reraises:
  "raised_during env w (snd (search env self query_text top_k w)) = Some e \<Longrightarrow>
   fst (search env self query_text top_k w) = Inl e"
  by (auto simp: raised_during_def search_calls search_result split: option.splits list.splits)

lemma connect_reraises:
  "raised_during env w (snd (connect_milvus env st w)) = Some e \<Longrightarrow>
   fst (connect_milvus env st w) = Inl e"
  by (simp add: raised_during_def connect_milvus_def connections_connect_def io_defs
      split: option.splits)

lemma init_collection_reraises:
  "raised_during env w (snd (init_collection env st d w)) = Some e \<Longrightarrow>
   fst (init_collection env st d w) = Inl e"
  by (simp add: raised_during_def init_collection_def utility_has_collection_def Collection_def
      collection_create_index_def collection_load_def io_defs
      split: option.splits if_splits)

lemma close_swallows:
  "fst (close env self w) = Inr ()"
  "calls (snd (close env self w)) = calls w @ [Disconnect ''default'']"
  "fails env (calls w) (Disconnect ''default'') = Some e \<Longrightarrow>
   logs (snd (close env self w)) =
     logs w @ [(ERROR, ''Error disconnecting from Milvus: {}'', ExnArg e)]"
  by (simp_all add: close_def connections_disconnect_def io_defs split: option.splits)

subsection \<open>The write path\<close>

text \<open>
  Claim C7. Every successful \<^verbatim>\<open>store_embeddings\<close> call issues exactly two calls to the
  store: one insert that carries the whole batch (the returned ids, the document id
  repeated, the texts and the embeddings as given), then one flush. When it returns, the
  write buffer of the collection is empty and the batch is the last committed one, so a
  successful call never leaves its batch uncommitted.
\<close>

theorem store_single_insert_then_flush:
  assumes "store_embeddings env self embeddings texts metadata w = (Inr ids, w')"
  shows "calls w' = calls w @
           [Insert (collection self)
              \<lparr>id_col = ids,
               document_id_col =
                 replicate (length texts) (dict_get metadata ''document_id'' (PyStr ''unknown'')),
               text_col = texts, vector_col = embeddings\<rparr>,
            Flush (collection self)]
         \<and> pending w' (collection self) = []
         \<and> committed w' (collection self) =
             committed w (collection self) @ pending w (collection self) @
               [\<lparr>id_col = ids,
                 document_id_col =
                   replicate (length texts) (dict_get metadata ''document_id'' (PyStr ''unknown'')),
                 text_col = texts, vector_col = embeddings\<rparr>]"
proof -
  from assms have r: "fst (store_embeddings env self embeddings texts metadata w) = Inr ids"
    and w': "w' = snd (store_embeddings env self embeddings texts metadata w)"
    by simp_all
  from r have ids: "ids = drawn_ids env w (length texts)"
    and ok: "fails env (calls w)
               (Insert (collection self) (batch env w embeddings texts metadata)) = None"
    by (auto simp: store_result split: option.splits)
  have b: "batch env w embeddings texts metadata =
      \<lparr>id_col = ids,
       document_id_col =
         replicate (length texts) (dict_get metadata ''document_id'' (PyStr ''unknown'')),
       text_col = texts, vector_col = embeddings\<rparr>"
    by (simp add: batch_def ids)
  show ?thesis
    using store_calls [of env self embeddings texts metadata w] store_committed [OF r] ok
    by (simp add: w' b)
qed

theorem store_single_insert_then_flush_witness:
  "store_embeddings env_ok engine0 [[1, 0], [0, 1]] [''a'', ''b'']
       [''document_id'' \<mapsto> PyStr ''d1''] world0
     = (Inr [''u'', ''uu''],
        snd (store_embeddings env_ok engine0 [[1, 0], [0, 1]] [''a'', ''b'']
               [''document_id'' \<mapsto> PyStr ''d1''] world0))
   \<and> calls (snd (store_embeddings env_ok engine0 [[1, 0], [0, 1]] [''a'', ''b'']
                   [''document_id'' \<mapsto> PyStr ''d1''] world0)) =
       [Insert ''documents''
          \<lparr>id_col = [''u'', ''uu''], document_id_col = [PyStr ''d1'', PyStr ''d1''],
           text_col = [''a'', ''b''], vector_col = [[1, 0], [0, 1]]\<rparr>,
        Flush ''documents'']"
proof (rule conjI)
  show run: "store_embeddings env_ok engine0 [[1, 0], [0, 1]] [''a'', ''b'']
       [''document_id'' \<mapsto> PyStr ''d1''] world0
     = (Inr [''u'', ''uu''],
        snd (store_embeddings env_ok engine0 [[1, 0], [0, 1]] [''a'', ''b'']
               [''document_id'' \<mapsto> PyStr ''d1''] world0))"
    by (rule prod_eqI)
       (simp_all add: store_embeddings_def io_defs collection_insert_def collection_flush_def
          uuid4_def env_ok_def world0_def engine0_def dict_get_def numeral_2_eq_2)
  show "calls (snd (store_embeddings env_ok engine0 [[1, 0], [0, 1]] [''a'', ''b'']
                   [''document_id'' \<mapsto> PyStr ''d1''] world0)) =
       [Insert ''documents''
          \<lparr>id_col = [''u'', ''uu''], document_id_col = [PyStr ''d1'', PyStr ''d1''],
           text_col = [''a'', ''b''], vector_col = [[1, 0], [0, 1]]\<rparr>,
        Flush ''documents'']"
    using store_single_insert_then_flush [OF run]
    by (simp add: world0_def engine0_def dict_get_def numeral_2_eq_2)
qed

text \<open>
  Claim C2. Assume that \<^verbatim>\<open>uuid4\<close> never repeats a value in the run. A successful
  \<^verbatim>\<open>store_embeddings\<close> call returns exactly \<open>length texts\<close> ids, and they are the id
  column of the batch it inserted, whose text column is \<open>texts\<close> and whose vector column is
  \<open>embeddings\<close>: the \<open>i\<close>-th returned id is the id stored with \<open>texts ! i\<close> and
  \<open>embeddings ! i\<close>. The ids it returns and the ids any later successful call returns, after
  any sequence of method calls in between, are pairwise distinct.
\<close>

theorem store_ids_in_order_and_fresh:
  assumes "inj (uuid4_src env)"
    and "store_embeddings env self embeddings texts metadata w = (Inr ids, w1)"
    and "store_embeddings env self embeddings' texts' metadata' (run_ops env self between w1) = (Inr ids', w2)"
  shows "length ids = length texts
         \<and> length ids' = length texts'
         \<and> (\<exists>doc_col. calls w1 = calls w @
               [Insert (collection self)
                  \<lparr>id_col = ids, document_id_col = doc_col, text_col = texts, vector_col = embeddings\<rparr>,
                Flush (collection self)])
         \<and> distinct (ids @ ids')"
proof -
  let ?w1' = "run_ops env self between w1"
  from assms(2) have r: "fst (store_embeddings env self embeddings texts metadata w) = Inr ids"
    and w1: "w1 = snd (store_embeddings env self embeddings texts metadata w)"
    by simp_all
  from r have ids: "ids = drawn_ids env w (length texts)"
    and ok: "fails env (calls w)
               (Insert (collection self) (batch env w embeddings texts metadata)) = None"
    by (auto simp: store_result split: option.splits)
  from assms(3) have "fst (store_embeddings env self embeddings' texts' metadata' ?w1') = Inr ids'"
    by simp
  then have ids': "ids' = drawn_ids env ?w1' (length texts')"
    by (auto simp: store_result split: option.splits)
  have "uuid_drawn w1 = uuid_drawn w + length texts"
    by (simp add: w1 store_uuid_drawn)
  then have le: "uuid_drawn w + length texts \<le> uuid_drawn ?w1'"
    using run_ops_uuid_drawn [of w1 env self between] by simp
  have "calls w1 = calls w @
               [Insert (collection self)
                  \<lparr>id_col = ids, document_id_col = document_id_col (batch env w embeddings texts metadata),
                   text_col = texts, vector_col = embeddings\<rparr>,
                Flush (collection self)]"
    using store_calls [of env self embeddings texts metadata w] ok
    by (simp add: w1 batch_def ids)
  then show ?thesis
    using drawn_ids_distinct [OF assms(1) le] by (auto simp: ids ids' drawn_ids_def)
qed

theorem store_ids_in_order_and_fresh_witness:
  "inj (uuid4_src env_ok)
   \<and> store_embeddings env_ok engine0 [[1, 0]] [''a''] Map.empty world0 = (Inr [''u''], world1)
   \<and> fst (store_embeddings env_ok engine0 [[0, 1], [1, 1]] [''b'', ''c''] Map.empty
        (run_ops env_ok engine0 [SearchFor ''a'' 1] world1)) = Inr [''uu'', ''uuu'']
   \<and> distinct ([''u''] @ [''uu'', ''uuu''])"
proof -
  have i: "inj (uuid4_src env_ok)"
    by (simp add: env_ok_def inj_def)
  have a: "store_embeddings env_ok engine0 [[1, 0]] [''a''] Map.empty world0 = (Inr [''u''], world1)"
    unfolding world1_def
    by (rule prod_eqI) (simp_all add: run_defs env_ok_def world0_def engine0_def)
  have b: "fst (store_embeddings env_ok engine0 [[0, 1], [1, 1]] [''b'', ''c''] Map.empty
        (run_ops env_ok engine0 [SearchFor ''a'' 1] world1)) = Inr [''uu'', ''uuu'']"
    by (simp add: world1_eq run_defs env_ok_def engine0_def)
  have c: "store_embeddings env_ok engine0 [[0, 1], [1, 1]] [''b'', ''c''] Map.empty
        (run_ops env_ok engine0 [SearchFor ''a'' 1] world1) = (Inr [''uu'', ''uuu''], 
        snd (store_embeddings env_ok engine0 [[0, 1], [1, 1]] [''b'', ''c''] Map.empty
        (run_ops env_ok engine0 [SearchFor ''a'' 1] world1)))"
    by (rule prod_eqI) (simp_all only: b fst_conv snd_conv)
  show ?thesis
    using i a b store_ids_in_order_and_fresh [OF i a c] by simp
qed

text \<open>
  Claim C8. When the metadata has no key \<^verbatim>\<open>document_id\<close>, the batch that
  \<^verbatim>\<open>store_embeddings\<close> inserts has \<^verbatim>\<open>"unknown"\<close> as the document id of every one
  of its \<open>length texts\<close> rows; when the key is there, its value is used for every row.
  The missing key raises nothing: an exception that leaves the call was raised by the
  store, on the insert or on the flush.
\<close>

theorem store_document_id_default:
  assumes "store_embeddings env self embeddings texts metadata w = (r, w')"
  shows "(metadata ''document_id'' = None \<longrightarrow>
            (\<exists>ids rest. calls w' = calls w @
               Insert (collection self)
                 \<lparr>id_col = ids,
                  document_id_col = replicate (length texts) (PyStr ''unknown''),
                  text_col = texts, vector_col = embeddings\<rparr> # rest))
       \<and> (\<forall>v. metadata ''document_id'' = Some v \<longrightarrow>
            (\<exists>ids rest. calls w' = calls w @
               Insert (collection self)
                 \<lparr>id_col = ids,
                  document_id_col = replicate (length texts) v,
                  text_col = texts, vector_col = embeddings\<rparr> # rest))
       \<and> (\<forall>e. r = Inl e \<longrightarrow>
            (\<exists>b. fails env (calls w) (Insert (collection self) b) = Some e
               \<or> fails env (calls w @ [Insert (collection self) b]) (Flush (collection self)) = Some e))"
proof -
  from assms have r: "r = fst (store_embeddings env self embeddings texts metadata w)"
    and w': "w' = snd (store_embeddings env self embeddings texts metadata w)"
    by simp_all
  have c: "\<exists>rest. calls w' = calls w @
             Insert (collection self) (batch env w embeddings texts metadata) # rest"
    by (simp add: w' store_calls)
  have "\<exists>ids rest. calls w' = calls w @
               Insert (collection self)
                 \<lparr>id_col = ids,
                  document_id_col = replicate (length texts) (PyStr ''unknown''),
                  text_col = texts, vector_col = embeddings\<rparr> # rest"
    if "metadata ''document_id'' = None"
    using c that by (auto simp: batch_def dict_get_def)
  moreover have "\<exists>ids rest. calls w' = calls w @
               Insert (collection self)
                 \<lparr>id_col = ids,
                  document_id_col = replicate (length texts) v,
                  text_col = texts, vector_col = embeddings\<rparr> # rest"
    if "metadata ''document_id'' = Some v" for v
    using c that by (auto simp: batch_def dict_get_def)
  moreover have "\<exists>b. fails env (calls w) (Insert (collection self) b) = Some e
               \<or> fails env (calls w @ [Insert (collection self) b]) (Flush (collection self)) = Some e"
    if "r = Inl e" for e
    using that unfolding r store_result by (auto split: option.splits)
  ultimately show ?thesis by blast
qed

theorem store_document_id_default_witness:
  "(Map.empty :: string \<rightharpoonup> pyval) ''document_id'' = None
   \<and> (\<exists>ids rest. calls (snd (store_embeddings env_ok engine0 [[1, 0]] [''a''] Map.empty world0)) =
         Insert ''documents''
           \<lparr>id_col = ids, document_id_col = [PyStr ''unknown''],
            text_col = [''a''], vector_col = [[1, 0]]\<rparr> # rest)
   \<and> fst (store_embeddings env_ok engine0 [[1, 0]] [''a''] Map.empty world0) = Inr [''u'']
   \<and> [''document_id'' \<mapsto> PyStr ''doc-1''] ''document_id'' = Some (PyStr ''doc-1'')
   \<and> (\<exists>ids rest. calls (snd (store_embeddings env_ok engine0 [[1, 0]] [''a'']
                              [''document_id'' \<mapsto> PyStr ''doc-1''] world0)) =
         Insert ''documents''
           \<lparr>id_col = ids, document_id_col = [PyStr ''doc-1''],
            text_col = [''a''], vector_col = [[1, 0]]\<rparr> # rest)"
proof -
  have a: "store_embeddings env_ok engine0 [[1, 0]] [''a''] Map.empty world0 =
        (fst (store_embeddings env_ok engine0 [[1, 0]] [''a''] Map.empty world0),
         snd (store_embeddings env_ok engine0 [[1, 0]] [''a''] Map.empty world0))"
    by simp
  have b: "store_embeddings env_ok engine0 [[1, 0]] [''a''] [''document_id'' \<mapsto> PyStr ''doc-1''] world0 =
        (fst (store_embeddings env_ok engine0 [[1, 0]] [''a''] [''document_id'' \<mapsto> PyStr ''doc-1''] world0),
         snd (store_embeddings env_ok engine0 [[1, 0]] [''a''] [''document_id'' \<mapsto> PyStr ''doc-1''] world0))"
    by simp
  have c: "fst (store_embeddings env_ok engine0 [[1, 0]] [''a''] Map.empty world0) = Inr [''u'']"
    by (simp add: run_defs env_ok_def world0_def engine0_def)
  have d: "calls world0 = []" "collection engine0 = ''documents''"
    by (simp_all add: world0_def engine0_def)
  show ?thesis
    using store_document_id_default [OF a] store_document_id_default [OF b] c
    by (simp add: d)
qed

text \<open>
  Claim C10. Every insert that one \<^verbatim>\<open>store_embeddings\<close> call issues carries a document
  id column of \<open>length texts\<close> entries that all equal the one value resolved from the
  metadata (the value of \<^verbatim>\<open>document_id\<close>, or \<^verbatim>\<open>"unknown"\<close>): a batch never mixes
  documents.
\<close>

theorem store_batch_one_document:
  assumes "store_embeddings env self embeddings texts metadata w = (r, w')"
    and "Insert h b \<in> set (drop (length (calls w)) (calls w'))"
  shows "length (document_id_col b) = length texts
         \<and> (\<forall>d \<in> set (document_id_col b). d = dict_get metadata ''document_id'' (PyStr ''unknown''))"
proof -
  from assms(1) have w': "w' = snd (store_embeddings env self embeddings texts metadata w)"
    by simp
  from assms(2) have "b = batch env w embeddings texts metadata"
    by (auto simp: w' store_calls split: if_splits)
  then show ?thesis by (simp add: batch_def)
qed

theorem store_batch_one_document_witness:
  "Insert ''documents''
     \<lparr>id_col = [''u'', ''uu''], document_id_col = [PyStr ''d1'', PyStr ''d1''],
      text_col = [''a'', ''b''], vector_col = [[1, 0], [0, 1]]\<rparr>
     \<in> set (drop (length (calls world0))
          (calls (snd (store_embeddings env_ok engine0 [[1, 0], [0, 1]] [''a'', ''b'']
                   [''document_id'' \<mapsto> PyStr ''d1'', ''page'' \<mapsto> PyInt 3] world0))))
   \<and> set [PyStr ''d1'', PyStr ''d1''] =
       {dict_get [''document_id'' \<mapsto> PyStr ''d1'', ''page'' \<mapsto> PyInt 3] ''document_id''
          (PyStr ''unknown'')}"
proof -
  have a: "store_embeddings env_ok engine0 [[1, 0], [0, 1]] [''a'', ''b'']
                   [''document_id'' \<mapsto> PyStr ''d1'', ''page'' \<mapsto> PyInt 3] world0 =
        (fst (store_embeddings env_ok engine0 [[1, 0], [0, 1]] [''a'', ''b'']
                   [''document_id'' \<mapsto> PyStr ''d1'', ''page'' \<mapsto> PyInt 3] world0),
         snd (store_embeddings env_ok engine0 [[1, 0], [0, 1]] [''a'', ''b'']
                   [''document_id'' \<mapsto> PyStr ''d1'', ''page'' \<mapsto> PyInt 3] world0))"
    by simp
  have b: "Insert ''documents''
     \<lparr>id_col = [''u'', ''uu''], document_id_col = [PyStr ''d1'', PyStr ''d1''],
      text_col = [''a'', ''b''], vector_col = [[1, 0], [0, 1]]\<rparr>
     \<in> set (drop (length (calls world0))
          (calls (snd (store_embeddings env_ok engine0 [[1, 0], [0, 1]] [''a'', ''b'']
                   [''document_id'' \<mapsto> PyStr ''d1'', ''page'' \<mapsto> PyInt 3] world0))))"
    by (simp add: run_defs env_ok_def world0_def engine0_def)
  show ?thesis
    using b store_batch_one_document [OF a b] by simp
qed



subsection \<open>The embedder and the search path\<close>



text \<open>
  Claim C3. Assume \<open>top_k > 0\<close> and that the store keeps its search contract when the
  search is issued, over the records visible in the collection. A successful
  \<^verbatim>\<open>search\<close> has sent the store one request: the embedding of the query as the one
  query vector, on the field \<^verbatim>\<open>vector\<close>, with the cosine metric and probe count 10, the
  limit \<open>top_k\<close> and the output fields \<^verbatim>\<open>text\<close> and \<^verbatim>\<open>document_id\<close>. It returns
  at most \<open>top_k\<close> results, in the order of non-increasing score; they are the hits of the
  one group the store answered, in the store's order, with the hits' ids and scores; and
  each result carries the id, the text and the document id of a record visible in the
  collection.
\<close>

theorem search_at_most_top_k_ranked:
  assumes "search_contract env (calls w @ [Encode [query_text]])
             (visible_records w (collection self))"
    and "0 < top_k"
    and "search env self query_text top_k w = (Inr results, w')"
  shows "int (length results) \<le> top_k
         \<and> sorted_wrt (\<lambda>a b. sr_score a \<ge> sr_score b) results
         \<and> (\<forall>res \<in> set results. \<exists>r \<in> set (visible_records w (collection self)).
               sr_id res = rec_id r
               \<and> sr_text res = PyStr (rec_text r)
               \<and> sr_metadata_document_id res = rec_document_id r)
         \<and> (\<exists>query_embedding rest hits.
               encode_out env [query_text] = query_embedding # rest
               \<and> calls w' = calls w @
                   [Encode [query_text],
                    Search (collection self)
                      \<lparr>sq_data = [query_embedding],
                       sq_anns_field = ''vector'',
                       sq_param = \<lparr>sp_metric_type = ''COSINE'', sp_nprobe = 10\<rparr>,
                       sq_limit = top_k,
                       sq_output_fields = [''text'', ''document_id'']\<rparr>]
               \<and> search_out env (calls w @ [Encode [query_text]])
                     \<lparr>sq_data = [query_embedding],
                      sq_anns_field = ''vector'',
                      sq_param = \<lparr>sp_metric_type = ''COSINE'', sp_nprobe = 10\<rparr>,
                      sq_limit = top_k,
                      sq_output_fields = [''text'', ''document_id'']\<rparr> = [hits]
               \<and> map sr_id results = map hit_id hits
               \<and> map sr_score results = map hit_score hits)"
proof -
  let ?tr = "calls w @ [Encode [query_text]]"
  let ?recs = "visible_records w (collection self)"
  from assms(3) have fst_eq: "fst (search env self query_text top_k w) = Inr results"
    and w': "w' = snd (search env self query_text top_k w)"
    by simp_all
  from fst_eq obtain qe rest where enc: "encode_out env [query_text] = qe # rest"
    and ok: "fails env (calls w) (Encode [query_text]) = None"
    and res: "results = format_results (search_out env ?tr (search_args qe top_k))"
    by (auto simp: search_result split: option.splits list.splits)
  let ?req = "search_args qe top_k"
  let ?groups = "search_out env ?tr ?req"
  have wf: "sq_anns_field ?req = ''vector'' \<and> sp_metric_type (sq_param ?req) = ''COSINE''
            \<and> 0 < sp_nprobe (sq_param ?req) \<and> 0 < sq_limit ?req"
    using assms(2) by (simp add: search_args_def)
  with assms(1) have len_g: "length ?groups = length (sq_data ?req)"
    and all_g: "\<forall>hits \<in> set ?groups.
              length hits \<le> nat (sq_limit ?req)
              \<and> sorted_wrt (\<lambda>a b. hit_score a \<ge> hit_score b) hits
              \<and> (\<forall>h \<in> set hits. \<exists>r \<in> set ?recs. hit_of_record (sq_output_fields ?req) h r)"
    unfolding search_contract_def by blast+
  from len_g have "length ?groups = 1"
    by (simp add: search_args_def)
  then obtain hits where g: "?groups = [hits]"
    by (cases ?groups) auto
  then have "hits \<in> set ?groups"
    by simp
  with all_g have "length hits \<le> nat (sq_limit ?req)
      \<and> sorted_wrt (\<lambda>a b. hit_score a \<ge> hit_score b) hits
      \<and> (\<forall>h \<in> set hits. \<exists>r \<in> set ?recs. hit_of_record (sq_output_fields ?req) h r)"
    by blast
  then have len: "int (length hits) \<le> top_k"
    and srt: "sorted_wrt (\<lambda>a b. hit_score a \<ge> hit_score b) hits"
    and recs: "\<forall>h \<in> set hits. \<exists>r \<in> set ?recs. hit_of_record [''text'', ''document_id''] h r"
    using assms(2) by (auto simp: search_args_def)
  have r: "results = map format_hit hits"
    by (simp add: res g)
  have bound: "int (length results) \<le> top_k"
    using len by (simp add: r)
  have order: "sorted_wrt (\<lambda>a b. sr_score a \<ge> sr_score b) results"
    using srt by (simp add: r sorted_wrt_map format_hit_def)
  have carried: "\<forall>res \<in> set results. \<exists>r \<in> set ?recs.
               sr_id res = rec_id r
               \<and> sr_text res = PyStr (rec_text r)
               \<and> sr_metadata_document_id res = rec_document_id r"
  proof
    fix x assume "x \<in> set results"
    then obtain h where h: "h \<in> set hits" and x: "x = format_hit h"
      by (auto simp: r)
    from recs h obtain rc where rc: "rc \<in> set ?recs"
      and m: "hit_of_record [''text'', ''document_id''] h rc"
      by blast
    from m have "hit_id h = rec_id rc" "hit_entity h ''text'' = Some (PyStr (rec_text rc))"
      "hit_entity h ''document_id'' = Some (rec_document_id rc)"
      by (simp_all add: hit_of_record_def record_field_def)
    then have "sr_id x = rec_id rc \<and> sr_text x = PyStr (rec_text rc)
        \<and> sr_metadata_document_id x = rec_document_id rc"
      by (simp add: x format_hit_def dict_get_def)
    with rc show "\<exists>r \<in> set ?recs. sr_id x = rec_id r \<and> sr_text x = PyStr (rec_text r)
        \<and> sr_metadata_document_id x = rec_document_id r"
      by blast
  qed
  have trace: "calls w' = calls w @ [Encode [query_text], Search (collection self) ?req]"
    unfolding w' search_calls by (simp add: ok enc)
  have proj: "map sr_id results = map hit_id hits \<and> map sr_score results = map hit_score hits"
    by (simp add: r format_hit_def)
  have "\<exists>query_embedding rest hits.
               encode_out env [query_text] = query_embedding # rest
               \<and> calls w' = calls w @
                   [Encode [query_text], Search (collection self) (search_args query_embedding top_k)]
               \<and> search_out env ?tr (search_args query_embedding top_k) = [hits]
               \<and> map sr_id results = map hit_id hits
               \<and> map sr_score results = map hit_score hits"
    using enc trace g proj by blast
  then have last: "\<exists>query_embedding rest hits.
               encode_out env [query_text] = query_embedding # rest
               \<and> calls w' = calls w @
                   [Encode [query_text],
                    Search (collection self)
                      \<lparr>sq_data = [query_embedding],
                       sq_anns_field = ''vector'',
                       sq_param = \<lparr>sp_metric_type = ''COSINE'', sp_nprobe = 10\<rparr>,
                       sq_limit = top_k,
                       sq_output_fields = [''text'', ''document_id'']\<rparr>]
               \<and> search_out env ?tr
                     \<lparr>sq_data = [query_embedding],
                      sq_anns_field = ''vector'',
                      sq_param = \<lparr>sp_metric_type = ''COSINE'', sp_nprobe = 10\<rparr>,
                      sq_limit = top_k,
                      sq_output_fields = [''text'', ''document_id'']\<rparr> = [hits]
               \<and> map sr_id results = map hit_id hits
               \<and> map sr_score results = map hit_score hits"
    by (simp add: search_args_def)
  from bound order carried last show ?thesis
    by blast
qed

theorem search_at_most_top_k_ranked_witness:
  "search_contract env_ranking (calls world2 @ [Encode [''feline on a mat'']])
     (visible_records world2 (collection engine0))
   \<and> (0 :: int) < 1
   \<and> search env_ranking engine0 ''feline on a mat'' 1 world2 =
       (Inr [\<lparr>sr_id = ''u'', sr_text = PyStr ''The cat sat.'', sr_score = 0.9,
              sr_metadata_document_id = PyStr ''doc-1''\<rparr>],
        snd (search env_ranking engine0 ''feline on a mat'' 1 world2))
   \<and> visible_records world2 (collection engine0) = [cat_record, dog_record]
   \<and> int (length [\<lparr>sr_id = ''u'', sr_text = PyStr ''The cat sat.'', sr_score = 0.9,
                     sr_metadata_document_id = PyStr ''doc-1''\<rparr>]) \<le> 1"
proof -
  have v: "visible_records world2 (collection engine0) = [cat_record, dog_record]"
    by (simp add: visible_records_def batch_records_def world2_def run_defs env_ranking_def
        env_ok_def world0_def engine0_def cat_record_def dog_record_def)
  have m: "hit_of_record fs (hit_for fs rc s) rc" for fs rc s
    by (simp add: hit_of_record_def hit_for_def)
  have c: "search_contract env_ranking (calls world2 @ [Encode [''feline on a mat'']])
     (visible_records world2 (collection engine0))"
  proof -
    have srt: "sorted_wrt (\<lambda>a b. hit_score a \<ge> hit_score b)
                 (take n [hit_for fs cat_record 0.9, hit_for fs dog_record 0.2])" for n fs
      by (rule sorted_wrt_take) (simp add: hit_for_def)
    have mem: "\<exists>r \<in> set [cat_record, dog_record]. hit_of_record fs h r"
      if "h \<in> set (take n [hit_for fs cat_record 0.9, hit_for fs dog_record 0.2])" for h n fs
      using in_set_takeD [OF that] by (auto simp: m)
    show ?thesis
      unfolding search_contract_def v
      using srt mem by (auto simp: env_ranking_def env_ok_def)
  qed
  have p: "(0 :: int) < 1"
    by simp
  have a: "search env_ranking engine0 ''feline on a mat'' 1 world2 =
       (Inr [\<lparr>sr_id = ''u'', sr_text = PyStr ''The cat sat.'', sr_score = 0.9,
              sr_metadata_document_id = PyStr ''doc-1''\<rparr>],
        snd (search env_ranking engine0 ''feline on a mat'' 1 world2))"
    by (rule prod_eqI)
       (simp_all add: run_defs format_hit_def hit_for_def record_field_def cat_record_def
          env_ranking_def env_ok_def engine0_def)
  have "int (length [\<lparr>sr_id = ''u'', sr_text = PyStr ''The cat sat.'', sr_score = 0.9,
                     sr_metadata_document_id = PyStr ''doc-1''\<rparr>]) \<le> 1"
    using search_at_most_top_k_ranked [OF c p a] by blast
  with c p a v show ?thesis
    by blast
qed

subsection \<open>Initialisation\<close>

text \<open>
  Claim C5. Assume no call to the store raises. Initialising the collection twice with
  the same parameters returns the collection both times. The first call creates the
  collection and its index exactly when the store does not have it, and attaches to it
  otherwise; the second call only checks, attaches and loads, so at most one creating call
  is issued over both and the store has the same collections after the second call as
  after the first. Both branches end with the load, and the collection is loaded when each
  call returns.
\<close>

theorem init_collection_idempotent:
  assumes "\<forall>tr c. fails env tr c = None"
    and "init_collection env st d w = (r1, w1)"
    and "init_collection env st d w1 = (r2, w2)"
  shows "r1 = Inr (milvus_collection st) \<and> r2 = Inr (milvus_collection st)
         \<and> length (filter is_creation (drop (length (calls w)) (calls w2))) \<le> 1
         \<and> calls w1 = calls w @
             (if collections w (milvus_collection st) = None
              then [HasCollection (milvus_collection st),
                    NewCollection (milvus_collection st) (Some (document_schema d)),
                    CreateIndex (milvus_collection st) ''vector'' ivf_flat_index,
                    Load (milvus_collection st)]
              else [HasCollection (milvus_collection st),
                    NewCollection (milvus_collection st) None,
                    Load (milvus_collection st)])
         \<and> calls w2 = calls w1 @
             [HasCollection (milvus_collection st),
              NewCollection (milvus_collection st) None,
              Load (milvus_collection st)]
         \<and> collections w2 = collections w1
         \<and> dom (collections w1) = insert (milvus_collection st) (dom (collections w))
         \<and> milvus_collection st \<in> set (loaded w1)
         \<and> milvus_collection st \<in> set (loaded w2)"
proof -
  from assms(2) have r1: "r1 = fst (init_collection env st d w)"
    and w1: "w1 = snd (init_collection env st d w)"
    by simp_all
  from assms(3) have r2: "r2 = fst (init_collection env st d w1)"
    and w2: "w2 = snd (init_collection env st d w1)"
    by simp_all
  note rel = assms(1)
  have c1: "collections w1 =
     (if collections w (milvus_collection st) = None
      then (collections w)(milvus_collection st \<mapsto> document_schema d)
      else collections w)"
    unfolding w1 by (rule init_collection_reliable_collections [OF rel])
  then have ex: "collections w1 (milvus_collection st) \<noteq> None"
    by auto
  have k1: "calls w1 = calls w @
             (if collections w (milvus_collection st) = None
              then [HasCollection (milvus_collection st),
                    NewCollection (milvus_collection st) (Some (document_schema d)),
                    CreateIndex (milvus_collection st) ''vector'' ivf_flat_index,
                    Load (milvus_collection st)]
              else [HasCollection (milvus_collection st),
                    NewCollection (milvus_collection st) None,
                    Load (milvus_collection st)])"
    unfolding w1 by (rule init_collection_reliable_calls [OF rel])
  have k2: "calls w2 = calls w1 @
             [HasCollection (milvus_collection st),
              NewCollection (milvus_collection st) None,
              Load (milvus_collection st)]"
    unfolding w2 using ex by (auto simp: init_collection_reliable_calls [OF rel])
  have c2: "collections w2 = collections w1"
    unfolding w2 using ex by (auto simp: init_collection_reliable_collections [OF rel])
  have d1: "dom (collections w1) = insert (milvus_collection st) (dom (collections w))"
    unfolding c1 by auto
  have l1: "milvus_collection st \<in> set (loaded w1)"
    unfolding w1 by (simp add: init_collection_reliable_loaded [OF rel])
  have l2: "milvus_collection st \<in> set (loaded w2)"
    unfolding w2 by (simp add: init_collection_reliable_loaded [OF rel])
  have n: "length (filter is_creation (drop (length (calls w)) (calls w2))) \<le> 1"
    unfolding k2 k1 by simp
  have "r1 = Inr (milvus_collection st)" "r2 = Inr (milvus_collection st)"
    unfolding r1 r2 by (simp_all add: init_collection_reliable_result [OF rel])
  with n k1 k2 c2 d1 l1 l2 show ?thesis
    by blast
qed

theorem init_collection_idempotent_witness:
  "(\<forall>tr c. fails env_ok tr c = None)
   \<and> init_collection env_ok settings0 2 world0 = (Inr ''documents'', world_initialised)
   \<and> init_collection env_ok settings0 2 world_initialised =
       (Inr ''documents'', snd (init_collection env_ok settings0 2 world_initialised))
   \<and> calls (snd (init_collection env_ok settings0 2 world_initialised)) =
       [HasCollection ''documents'',
        NewCollection ''documents'' (Some (document_schema 2)),
        CreateIndex ''documents'' ''vector'' ivf_flat_index,
        Load ''documents'',
        HasCollection ''documents'',
        NewCollection ''documents'' None,
        Load ''documents'']"
proof -
  have rel: "\<forall>tr c. fails env_ok tr c = None"
    by (simp add: env_ok_def)
  have a: "init_collection env_ok settings0 2 world0 = (Inr ''documents'', world_initialised)"
    unfolding world_initialised_def
    by (rule prod_eqI) (simp_all add: init_defs io_defs env_ok_def settings0_def)
  have b: "init_collection env_ok settings0 2 world_initialised =
       (Inr ''documents'', snd (init_collection env_ok settings0 2 world_initialised))"
    by (rule prod_eqI) (simp_all add: init_defs io_defs env_ok_def settings0_def)
  have c: "collections world0 ''documents'' = None" "calls world0 = []"
    "milvus_collection settings0 = ''documents''"
    by (simp_all add: world0_def settings0_def)
  have "calls (snd (init_collection env_ok settings0 2 world_initialised)) =
       [HasCollection ''documents'',
        NewCollection ''documents'' (Some (document_schema 2)),
        CreateIndex ''documents'' ''vector'' ivf_flat_index,
        Load ''documents'',
        HasCollection ''documents'',
        NewCollection ''documents'' None,
        Load ''documents'']"
    using init_collection_idempotent [OF rel a b] by (simp add: c)
  with rel a b show ?thesis
    by blast
qed

text \<open>
  Claim C9. The constructor connects before it touches the collection. When the model has
  loaded and the connect call raises, the constructor raises that exception, the connect
  is the last call it issued, and the store's collections, indexes, loaded collections and
  connections are as before. When the constructor returns an engine, the connect was
  issued before the first collection call.
\<close>

theorem init_connects_before_collection:
  assumes "engine_init env st w = (r, w')"
  shows "(\<forall>e. fails env (calls w) (SentenceTransformer ''all-MiniLM-L6-v2'') = None
             \<and> fails env (calls w @ [SentenceTransformer ''all-MiniLM-L6-v2''])
                 (Connect ''default'' (milvus_uri st) (milvus_token st)) = Some e
           \<longrightarrow> r = Inl e
               \<and> calls w' = calls w @ [SentenceTransformer ''all-MiniLM-L6-v2'',
                                        Connect ''default'' (milvus_uri st) (milvus_token st)]
               \<and> collections w' = collections w \<and> indexes w' = indexes w
               \<and> loaded w' = loaded w \<and> aliases w' = aliases w)
         \<and> (\<forall>eng. r = Inr eng
           \<longrightarrow> (\<exists>rest. calls w' = calls w @ SentenceTransformer ''all-MiniLM-L6-v2'' #
                   Connect ''default'' (milvus_uri st) (milvus_token st) #
                   HasCollection (milvus_collection st) # rest))"
proof -
  from assms have r: "r = fst (engine_init env st w)" and w': "w' = snd (engine_init env st w)"
    by simp_all
  show ?thesis
    unfolding r w' by (auto simp: engine_init_connect_fails dest: engine_init_success_calls)
qed

theorem init_connects_before_collection_witness:
  "fails env_unreachable (calls world0) (SentenceTransformer ''all-MiniLM-L6-v2'') = None
   \<and> fails env_unreachable (calls world0 @ [SentenceTransformer ''all-MiniLM-L6-v2''])
        (Connect ''default'' (milvus_uri settings0) (milvus_token settings0)) =
        Some (External ''unreachable'')
   \<and> fst (engine_init env_unreachable settings0 world0) = Inl (External ''unreachable'')
   \<and> calls (snd (engine_init env_unreachable settings0 world0)) =
       [SentenceTransformer ''all-MiniLM-L6-v2'',
        Connect ''default'' ''https://example.zillizcloud.com'' ''token'']
   \<and> fst (engine_init env_ok settings0 world0) =
       Inr \<lparr>model = ''all-MiniLM-L6-v2'', dimension = 2, collection = ''documents''\<rparr>
   \<and> (\<exists>rest. calls (snd (engine_init env_ok settings0 world0)) =
         SentenceTransformer ''all-MiniLM-L6-v2'' #
         Connect ''default'' ''https://example.zillizcloud.com'' ''token'' #
         HasCollection ''documents'' # rest)"
proof -
  have a: "engine_init env_unreachable settings0 world0 =
      (fst (engine_init env_unreachable settings0 world0),
       snd (engine_init env_unreachable settings0 world0))"
    by simp
  have b: "engine_init env_ok settings0 world0 =
      (fst (engine_init env_ok settings0 world0), snd (engine_init env_ok settings0 world0))"
    by simp
  have f: "fails env_unreachable (calls world0) (SentenceTransformer ''all-MiniLM-L6-v2'') = None"
    "fails env_unreachable (calls world0 @ [SentenceTransformer ''all-MiniLM-L6-v2''])
        (Connect ''default'' (milvus_uri settings0) (milvus_token settings0)) =
        Some (External ''unreachable'')"
    by (simp_all add: env_unreachable_def)
  have ok: "fst (engine_init env_ok settings0 world0) =
       Inr \<lparr>model = ''all-MiniLM-L6-v2'', dimension = 2, collection = ''documents''\<rparr>"
    by (simp add: init_defs io_defs env_ok_def settings0_def world0_def)
  have c: "calls world0 = []" "milvus_uri settings0 = ''https://example.zillizcloud.com''"
    "milvus_token settings0 = ''token''" "milvus_collection settings0 = ''documents''"
    by (simp_all add: world0_def settings0_def)
  show ?thesis
    using init_connects_before_collection [OF a] init_connects_before_collection [OF b] f ok
    by (simp add: c)
qed

subsection \<open>Propagation of failures\<close>

text \<open>
  Claim C4 says that every failure, a disconnect failure included, reaches the caller.
  A disconnect failure does not: when the store cannot be reached, \<^verbatim>\<open>close\<close> issues
  the disconnect, which raises, logs the exception and returns normally.
\<close>

theorem close_swallows_disconnect_failure_counterexample:
  "raised_during env_unreachable world0 (snd (close env_unreachable engine0 world0)) =
     Some (External ''unreachable'')
   \<and> close env_unreachable engine0 world0 =
       (Inr (),
        world0\<lparr>calls := [Disconnect ''default''],
               logs := [(ERROR, ''Error disconnecting from Milvus: {}'',
                         ExnArg (External ''unreachable''))]\<rparr>)"
  by (simp add: raised_during_def close_def connections_disconnect_def io_defs
      env_unreachable_def world0_def)

text \<open>
  Claim C4, amended. In \<^verbatim>\<open>embed_texts\<close>, \<^verbatim>\<open>store_embeddings\<close>, \<^verbatim>\<open>search\<close>,
  \<^verbatim>\<open>_init_collection\<close> and \<^verbatim>\<open>_connect_milvus\<close>, an exception raised by any call the
  method issues leaves the method: the method raises that exception and returns no value
  in its place. \<^verbatim>\<open>close\<close> always returns normally; an exception raised by the
  disconnect is written to the log as an error and not raised.
\<close>

theorem failures_reraised_except_disconnect:
  "(raised_during env w (snd (embed_texts env self texts w)) = Some e
      \<longrightarrow> fst (embed_texts env self texts w) = Inl e)
   \<and> (raised_during env w (snd (store_embeddings env self embeddings texts metadata w)) = Some e
      \<longrightarrow> fst (store_embeddings env self embeddings texts metadata w) = Inl e)
   \<and> (raised_during env w (snd (search env self query_text top_k w)) = Some e
      \<longrightarrow> fst (search env self query_text top_k w) = Inl e)
   \<and> (raised_during env w (snd (init_collection env st d w)) = Some e
      \<longrightarrow> fst (init_collection env st d w) = Inl e)
   \<and> (raised_during env w (snd (connect_milvus env st w)) = Some e
      \<longrightarrow> fst (connect_milvus env st w) = Inl e)
   \<and> fst (close env self w) = Inr ()
   \<and> (raised_during env w (snd (close env self w)) = Some e
      \<longrightarrow> logs (snd (close env self w)) =
            logs w @ [(ERROR, ''Error disconnecting from Milvus: {}'', ExnArg e)])"
proof -
  have "logs (snd (close env self w)) =
            logs w @ [(ERROR, ''Error disconnecting from Milvus: {}'', ExnArg e)]"
    if "raised_during env w (snd (close env self w)) = Some e"
  proof -
    from that have "fails env (calls w) (Disconnect ''default'') = Some e"
      by (simp add: raised_during_def close_swallows(2) split: option.splits)
    then show ?thesis by (rule close_swallows(3))
  qed
  then show ?thesis
    by (intro conjI impI)
       (simp_all add: embed_reraises store_reraises search_reraises init_collection_reraises
          connect_reraises close_swallows(1))
qed

theorem failures_reraised_except_disconnect_witness:
  "raised_during env_unreachable world0 (snd (connect_milvus env_unreachable settings0 world0)) =
     Some (External ''unreachable'')
   \<and> fst (connect_milvus env_unreachable settings0 world0) = Inl (External ''unreachable'')
   \<and> raised_during env_rejecting world0
        (snd (store_embeddings env_rejecting engine0 [[1, 0]] [''a''] Map.empty world0)) =
     Some (External ''insert rejected'')
   \<and> fst (store_embeddings env_rejecting engine0 [[1, 0]] [''a''] Map.empty world0) =
       Inl (External ''insert rejected'')
   \<and> raised_during env_unreachable world0 (snd (close env_unreachable engine0 world0)) =
     Some (External ''unreachable'')
   \<and> logs (snd (close env_unreachable engine0 world0)) =
       [(ERROR, ''Error disconnecting from Milvus: {}'', ExnArg (External ''unreachable''))]"
proof -
  have a: "raised_during env_unreachable world0
             (snd (connect_milvus env_unreachable settings0 world0)) =
           Some (External ''unreachable'')"
    by (simp add: raised_during_def connect_milvus_def connections_connect_def io_defs
        env_unreachable_def world0_def)
  have b: "raised_during env_rejecting world0
        (snd (store_embeddings env_rejecting engine0 [[1, 0]] [''a''] Map.empty world0)) =
     Some (External ''insert rejected'')"
    by (simp add: raised_during_def store_calls env_rejecting_def world0_def)
  have c: "raised_during env_unreachable world0 (snd (close env_unreachable engine0 world0)) =
     Some (External ''unreachable'')"
    by (simp add: raised_during_def close_swallows(2) env_unreachable_def world0_def)
  have l: "logs world0 = []"
    by (simp add: world0_def)
  show ?thesis
    using a b c
      failures_reraised_except_disconnect [where env = env_unreachable and w = world0
        and self = engine0 and e = "External ''unreachable''" and st = settings0]
      failures_reraised_except_disconnect [where env = env_rejecting and w = world0
        and self = engine0 and e = "External ''insert rejected''" and embeddings = "[[1, 0]]"
        and texts = "[''a'']" and metadata = Map.empty]
    by (simp add: l)
qed

end
